theory Spec2Isabelle
  imports Complex_Main
begin

section \<open>Groundwater prediction API (backend/app.py)\<close>

text \<open>
  A shallow embedding of the prediction pipeline of \<^verbatim>\<open>src/backend/app.py\<close>:
  module start-up, the \<^verbatim>\<open>PredictionInput\<close> validators, \<^verbatim>\<open>prepare_features\<close>,
  \<^verbatim>\<open>weighted_ensemble_predictions\<close> and the \<^verbatim>\<open>predict\<close> route.

  Conventions of the embedding.
  \<^item> A Python \<^verbatim>\<open>float\<close> is a \<^typ>\<open>real\<close>: arithmetic is exact, there is no rounding,
    no NaN and no infinity. A Python \<^verbatim>\<open>int\<close> is an \<^typ>\<open>int\<close>.
  \<^item> A Python \<^verbatim>\<open>str\<close> is a \<^typ>\<open>string\<close>, one \<^typ>\<open>char\<close> per code point below 256.
  \<^item> A raised exception is the \<open>Inl\<close> branch of a sum; \<open>Inr\<close> is the returned value.
  \<^item> The fitted objects loaded with joblib (scaler, the three regressors) are functions
    that either raise or return; they are parameters of the model.
\<close>

subsection \<open>Exceptions\<close>

datatype exn =
    ValueError string
  | KeyError string
  | IndexError string
  | ZeroDivisionError string
  | FileNotFoundError string
  | RuntimeError string
  | Exception string

text \<open>\<^verbatim>\<open>str(e)\<close>: the message; a \<^verbatim>\<open>KeyError\<close> prints the repr of its key.\<close>

fun str_exn :: "exn \<Rightarrow> string" where
  "str_exn (ValueError m) = m"
| "str_exn (KeyError k) = CHR 0x27 # k @ [CHR 0x27]"
| "str_exn (IndexError m) = m"
| "str_exn (ZeroDivisionError m) = m"
| "str_exn (FileNotFoundError m) = m"
| "str_exn (RuntimeError m) = m"
| "str_exn (Exception m) = m"

text \<open>
  Sequencing: the statement after a call runs only if the call returned; an exception
  leaves the enclosing block at once.
\<close>

definition andthen :: "exn + 'a \<Rightarrow> ('a \<Rightarrow> exn + 'b) \<Rightarrow> exn + 'b" where
  "andthen r f = (case r of Inl e \<Rightarrow> Inl e | Inr x \<Rightarrow> f x)"

subsection \<open>Python built-ins used by the pipeline\<close>

text \<open>\<^verbatim>\<open>x % y\<close> on floats, for \<open>y \<noteq> 0\<close>: the result has the sign of \<open>y\<close>.\<close>

definition float_mod :: "real \<Rightarrow> real \<Rightarrow> real" where
  "float_mod x y = x - y * of_int \<lfloor>x / y\<rfloor>"

text \<open>\<^verbatim>\<open>int(x)\<close> on a float truncates towards zero.\<close>

definition py_int :: "real \<Rightarrow> int" where
  "py_int x = (if 0 \<le> x then \<lfloor>x\<rfloor> else \<lceil>x\<rceil>)"

text \<open>
  \<^verbatim>\<open>xs[i] = v\<close> on a list: a negative index counts from the end, an index out of range
  raises \<^verbatim>\<open>IndexError\<close>.
\<close>

definition list_setitem :: "'a list \<Rightarrow> int \<Rightarrow> 'a \<Rightarrow> exn + 'a list" where
  "list_setitem xs i v =
     (if 0 \<le> i \<and> i < int (length xs) then Inr (xs[nat i := v])
      else if - int (length xs) \<le> i \<and> i < 0 then Inr (xs[nat (int (length xs) + i) := v])
      else Inl (IndexError ''list assignment index out of range''))"

text \<open>\<^verbatim>\<open>arr[0]\<close> on the one-dimensional result of a regressor's \<^verbatim>\<open>predict\<close>.\<close>

definition getitem0 :: "real list \<Rightarrow> exn + real" where
  "getitem0 arr =
     (case arr of
        [] \<Rightarrow> Inl (IndexError ''index 0 is out of bounds for axis 0 with size 0'')
      | y # _ \<Rightarrow> Inr y)"

text \<open>\<^verbatim>\<open>d[k]\<close> on a dict.\<close>

definition dict_getitem :: "(string \<rightharpoonup> 'v) \<Rightarrow> string \<Rightarrow> exn + 'v" where
  "dict_getitem d k = (case d k of None \<Rightarrow> Inl (KeyError k) | Some v \<Rightarrow> Inr v)"

subsection \<open>Calendar dates: \<^verbatim>\<open>datetime.strptime(v, "%Y-%m-%d")\<close>\<close>

record datetime =
  dt_year :: int
  dt_month :: int
  dt_day :: int

definition is_leap :: "int \<Rightarrow> bool" where
  "is_leap y = (y mod 4 = 0 \<and> (y mod 100 \<noteq> 0 \<or> y mod 400 = 0))"

definition days_in_month :: "int \<Rightarrow> int \<Rightarrow> int" where
  "days_in_month y m =
     (if m = 2 \<and> is_leap y then 29
      else [31, 28, 31, 30, 31, 30, 31, 31, 30, 31, 30, 31] ! nat (m - 1))"

definition days_before_month :: "int \<Rightarrow> int \<Rightarrow> int" where
  "days_before_month y m =
     [0, 31, 59, 90, 120, 151, 181, 212, 243, 273, 304, 334] ! nat (m - 1)
       + (if m > 2 \<and> is_leap y then 1 else 0)"

text \<open>\<^verbatim>\<open>date_obj.timetuple().tm_yday\<close>, the day of the year, 1 to 366.\<close>

definition tm_yday :: "datetime \<Rightarrow> int" where
  "tm_yday date_obj = days_before_month (dt_year date_obj) (dt_month date_obj) + dt_day date_obj"

definition is_digit :: "char \<Rightarrow> bool" where
  "is_digit c = (c \<in> set ''0123456789'')"

definition digit_val :: "char \<Rightarrow> int" where
  "digit_val c = int (of_char c) - 48"

text \<open>
  The format \<^verbatim>\<open>%Y-%m-%d\<close> is compiled by the standard library to the regular expression
  \<^verbatim>\<open>(?P<Y>\d\d\d\d)-(?P<m>1[0-2]|0[1-9]|[1-9])-(?P<d>3[0-1]|[1-2]\d|0[1-9]|[1-9]| [1-9])\<close>.
  Each group below returns its ways to match a prefix, as (value, rest of the input),
  in the order in which the backtracking matcher tries them.
\<close>

fun re_Y :: "string \<Rightarrow> (int \<times> string) list" where
  "re_Y (a # b # c # d # rest) =
     (if is_digit a \<and> is_digit b \<and> is_digit c \<and> is_digit d
      then [(1000 * digit_val a + 100 * digit_val b + 10 * digit_val c + digit_val d, rest)]
      else [])"
| "re_Y _ = []"

definition re_two :: "char set \<Rightarrow> char set \<Rightarrow> string \<Rightarrow> (int \<times> string) list" where
  "re_two A B s =
     (case s of
        a # b # rest \<Rightarrow>
          if a \<in> A \<and> b \<in> B
          then [((if is_digit a then 10 * digit_val a else 0) + digit_val b, rest)] else []
      | _ \<Rightarrow> [])"

definition re_one :: "char set \<Rightarrow> string \<Rightarrow> (int \<times> string) list" where
  "re_one A s =
     (case s of a # rest \<Rightarrow> if a \<in> A then [(digit_val a, rest)] else [] | [] \<Rightarrow> [])"

definition re_m :: "string \<Rightarrow> (int \<times> string) list" where
  "re_m s = re_two {CHR ''1''} (set ''012'') s
          @ re_two {CHR ''0''} (set ''123456789'') s
          @ re_one (set ''123456789'') s"

definition re_d :: "string \<Rightarrow> (int \<times> string) list" where
  "re_d s = re_two {CHR ''3''} (set ''01'') s
          @ re_two (set ''12'') (set ''0123456789'') s
          @ re_two {CHR ''0''} (set ''123456789'') s
          @ re_one (set ''123456789'') s
          @ re_two {CHR '' ''} (set ''123456789'') s"

definition re_dash :: "string \<Rightarrow> string list" where
  "re_dash s = (case s of a # rest \<Rightarrow> if a = CHR ''-'' then [rest] else [] | [] \<Rightarrow> [])"

text \<open>\<^verbatim>\<open>format_regex.match(data_string)\<close>: the first way to match a prefix, if any.\<close>

definition format_regex_match :: "string \<Rightarrow> (int \<times> int \<times> int \<times> string) option" where
  "format_regex_match data_string =
     (case [(y, m, d, r5). (y, r1) \<leftarrow> re_Y data_string, r2 \<leftarrow> re_dash r1,
                           (m, r3) \<leftarrow> re_m r2, r4 \<leftarrow> re_dash r3, (d, r5) \<leftarrow> re_d r4] of
        [] \<Rightarrow> None
      | found # _ \<Rightarrow> Some found)"

text \<open>
  \<^verbatim>\<open>datetime.strptime(data_string, "%Y-%m-%d")\<close>: the match must cover the whole
  string, and the fields must form a date that \<^verbatim>\<open>datetime\<close> accepts (year 1 to 9999,
  day within the month). Every failure is a \<^verbatim>\<open>ValueError\<close>; the messages are abridged.
\<close>

definition strptime_Ymd :: "string \<Rightarrow> exn + datetime" where
  "strptime_Ymd data_string =
     (case format_regex_match data_string of
        None \<Rightarrow> Inl (ValueError ''time data does not match format'')
      | Some (y, m, d, rest) \<Rightarrow>
          if rest \<noteq> [] then Inl (ValueError ''unconverted data remains'')
          else if \<not> (1 \<le> y \<and> y \<le> 9999) then Inl (ValueError ''year is out of range'')
          else if \<not> (1 \<le> m \<and> m \<le> 12) then Inl (ValueError ''month must be in 1..12'')
          else if \<not> (1 \<le> d \<and> d \<le> days_in_month y m)
               then Inl (ValueError ''day is out of range for month'')
          else Inr \<lparr>dt_year = y, dt_month = m, dt_day = d\<rparr>)"

subsection \<open>Process start: loading the saved models\<close>

datatype json = JNum real | JStr string | JList "json list"

type_synonym transform = "real list list \<Rightarrow> exn + real list list"
type_synonym regressor = "real list list \<Rightarrow> exn + real list"

text \<open>
  The directory \<^verbatim>\<open>saved_models/\<close>: for each file, what \<^verbatim>\<open>joblib.load\<close> or
  \<^verbatim>\<open>json.load\<close> does on it, raise or return the loaded object.
\<close>

record saved_models =
  scaler_1 :: "exn + transform"
  xgb_model_1 :: "exn + regressor"
  stacking_model_1 :: "exn + regressor"
  residual_model_1 :: "exn + regressor"
  ensemble_weights_1 :: "exn + (string \<rightharpoonup> real)"
  training_metadata_1 :: "exn + (string \<rightharpoonup> json)"

text \<open>The module's global variables once the import has succeeded.\<close>

record module_state =
  scaler :: transform
  best_xgb :: regressor
  stacking_model :: regressor
  residual_model :: regressor
  ensemble_weights :: "string \<rightharpoonup> real"
  training_metadata :: "string \<rightharpoonup> json"
  year_min :: int
  year_max :: int
  features :: json
  spatial_lag_mean :: real
  prev_measurement_mean :: real
  prev_year_measurement_mean :: real

text \<open>The body of the \<^verbatim>\<open>try\<close> block: six loads in sequence, the first failure wins.\<close>

definition load_artifacts ::
  "saved_models \<Rightarrow>
   exn + (transform \<times> regressor \<times> regressor \<times> regressor \<times> (string \<rightharpoonup> real) \<times> (string \<rightharpoonup> json))"
where
  "load_artifacts files =
     andthen (scaler_1 files) (\<lambda>sc.
     andthen (xgb_model_1 files) (\<lambda>xgb.
     andthen (stacking_model_1 files) (\<lambda>st.
     andthen (residual_model_1 files) (\<lambda>res.
     andthen (ensemble_weights_1 files) (\<lambda>w.
     andthen (training_metadata_1 files) (\<lambda>md.
       Inr (sc, xgb, st, res, w, md)))))))"

text \<open>The two \<^verbatim>\<open>except\<close> clauses: every load failure becomes a \<^verbatim>\<open>RuntimeError\<close>.\<close>

definition load_failure :: "exn \<Rightarrow> exn" where
  "load_failure e =
     (case e of
        FileNotFoundError m \<Rightarrow> RuntimeError (''Could not load model files: '' @ m)
      | _ \<Rightarrow> RuntimeError (''Failed to load models: '' @ str_exn e))"

text \<open>
  The module body up to the route definitions. The year bounds and the three means are
  literals of the source; only \<^verbatim>\<open>features\<close> is read from the metadata.
\<close>

definition load_module :: "saved_models \<Rightarrow> exn + module_state" where
  "load_module files =
     (case load_artifacts files of
        Inl e \<Rightarrow> Inl (load_failure e)
      | Inr (sc, xgb, st, res, w, md) \<Rightarrow>
          (case dict_getitem md ''features'' of
             Inl e \<Rightarrow> Inl e
           | Inr f \<Rightarrow>
               Inr \<lparr>scaler = sc, best_xgb = xgb, stacking_model = st, residual_model = res,
                    ensemble_weights = w, training_metadata = md,
                    year_min = 1994, year_max = 2024, features = f,
                    spatial_lag_mean = 12.5, prev_measurement_mean = 11.8,
                    prev_year_measurement_mean = 12.1\<rparr>))"

subsection \<open>Input and output models\<close>

record PredictionInput =
  latitude :: real
  longitude :: real
  date :: string

record PredictionOutput =
  prediction :: real
  confidence :: real
  units :: string

definition validate_latitude :: "real \<Rightarrow> exn + real" where
  "validate_latitude v =
     (if \<not> (- 90 \<le> v \<and> v \<le> 90) then Inl (ValueError ''Latitude must be between -90 and 90'')
      else Inr v)"

definition validate_longitude :: "real \<Rightarrow> exn + real" where
  "validate_longitude v =
     (if \<not> (- 180 \<le> v \<and> v \<le> 180)
      then Inl (ValueError ''Longitude must be between -180 and 180'')
      else Inr v)"

definition validate_date_format :: "string \<Rightarrow> exn + string" where
  "validate_date_format v =
     (case strptime_Ymd v of
        Inl (ValueError _) \<Rightarrow> Inl (ValueError ''Date must be in YYYY-MM-DD format'')
      | Inl e \<Rightarrow> Inl e
      | Inr _ \<Rightarrow> Inr v)"

definition errors_of :: "exn + 'a \<Rightarrow> exn list" where
  "errors_of r = (case r of Inl e \<Rightarrow> [e] | Inr _ \<Rightarrow> [])"

text \<open>
  Constructing a \<^verbatim>\<open>PredictionInput\<close> (pydantic's \<^verbatim>\<open>BaseModel\<close>): the validator of
  each field runs, in the order of the fields; if any of them raised, the construction
  fails with the errors of all fields, otherwise the object holds the returned values.
\<close>

definition PredictionInput_init :: "real \<Rightarrow> real \<Rightarrow> string \<Rightarrow> exn list + PredictionInput" where
  "PredictionInput_init lat lon date_str =
     (case (validate_latitude lat, validate_longitude lon, validate_date_format date_str) of
        (Inr a, Inr b, Inr c) \<Rightarrow> Inr \<lparr>latitude = a, longitude = b, date = c\<rparr>
      | (ra, rb, rc) \<Rightarrow> Inl (errors_of ra @ errors_of rb @ errors_of rc))"

subsection \<open>Utility functions\<close>

definition prepare_features :: "module_state \<Rightarrow> real \<Rightarrow> real \<Rightarrow> string \<Rightarrow> exn + real list list" where
  "prepare_features g lat lon date_str =
     (case strptime_Ymd date_str of
        Inl e \<Rightarrow> Inl e
      | Inr date_obj \<Rightarrow>
         (let month = dt_month date_obj;
              year = dt_year date_obj;
              day_of_year = tm_yday date_obj;
              doy_sin = sin (2 * pi * of_int day_of_year / 365);
              doy_cos = cos (2 * pi * of_int day_of_year / 365);
              month_sin = sin (2 * pi * of_int month / 12);
              month_cos = cos (2 * pi * of_int month / 12)
          in if year_max g - year_min g = 0
             then Inl (ZeroDivisionError ''float division by zero'')
             else
              (let year_sin = sin (2 * pi * of_int (year - year_min g) / of_int (year_max g - year_min g));
                   year_cos = cos (2 * pi * of_int (year - year_min g) / of_int (year_max g - year_min g));
                   is_summer = (if month \<in> set [4, 5, 6] then 1 else 0 :: int);
                   is_winter = (if month \<in> set [11, 12, 1] then 1 else 0 :: int);
                   is_spring = (if month \<in> set [2, 3] then 1 else 0 :: int);
                   spatial_lag_est = spatial_lag_mean g;
                   prev_measurement_est = prev_measurement_mean g;
                   prev_year_measurement_est = prev_year_measurement_mean g;
                   cluster_idx = py_int (float_mod (\<bar>lat\<bar> + \<bar>lon\<bar>) 50)
               in case list_setitem (replicate 50 (0 :: int)) cluster_idx 1 of
                    Inl e \<Rightarrow> Inl e
                  | Inr cluster_features \<Rightarrow>
                      Inr [[lat, lon, doy_sin, doy_cos, month_sin, month_cos,
                            of_int year, year_sin, year_cos,
                            of_int is_summer, of_int is_winter, of_int is_spring,
                            spatial_lag_est, prev_measurement_est, prev_year_measurement_est]
                           @ map of_int cluster_features])))"

definition weighted_ensemble_predictions :: "real \<Rightarrow> real \<Rightarrow> real list \<Rightarrow> exn + real" where
  "weighted_ensemble_predictions xgb_pred stacking_pred weights =
     (case weights of
        w0 # w1 # _ \<Rightarrow> Inr (w0 * xgb_pred + w1 * stacking_pred)
      | _ \<Rightarrow> Inl (IndexError ''list index out of range''))"

subsection \<open>The route \<^verbatim>\<open>POST /predict\<close>\<close>

datatype log_record =
    Received PredictionInput
  | Completed real
  | Failed exn

datatype http_error =
    HTTPException int string
  | RequestValidationError "exn list"

text \<open>\<^verbatim>\<open>model.predict(features_scaled)[0]\<close>.\<close>

definition predict0 :: "regressor \<Rightarrow> real list list \<Rightarrow> exn + real" where
  "predict0 model x = andthen (model x) getitem0"

text \<open>The body of the \<^verbatim>\<open>try\<close> block of \<^verbatim>\<open>predict\<close>, without its log lines.\<close>

definition predict_try :: "module_state \<Rightarrow> PredictionInput \<Rightarrow> exn + PredictionOutput" where
  "predict_try g input_data =
     andthen (prepare_features g (latitude input_data) (longitude input_data) (date input_data))
       (\<lambda>features_array.
     andthen (scaler g features_array) (\<lambda>features_scaled.
     andthen (predict0 (best_xgb g) features_scaled) (\<lambda>xgb_pred.
     andthen (predict0 (stacking_model g) features_scaled) (\<lambda>stacking_pred.
     andthen (dict_getitem (ensemble_weights g) ''xgb_weight'') (\<lambda>xgb_weight.
     andthen (dict_getitem (ensemble_weights g) ''stacking_weight'') (\<lambda>stacking_weight.
     andthen (weighted_ensemble_predictions xgb_pred stacking_pred [xgb_weight, stacking_weight])
       (\<lambda>ensemble_pred.
     andthen (predict0 (residual_model g) features_scaled) (\<lambda>residual_pred.
       (let final_prediction = ensemble_pred + residual_pred;
            confidence_value = max 0.7 (1.0 - \<bar>final_prediction - 10\<bar> / 20)
        in Inr \<lparr>prediction = final_prediction, confidence = confidence_value,
                units = ''meters below ground level''\<rparr>)))))))))"

text \<open>
  \<^verbatim>\<open>predict\<close>: the records it logs and its outcome. The first log line is written on
  entry; \<^verbatim>\<open>except Exception\<close> turns every exception of the body into an
  \<^verbatim>\<open>HTTPException\<close> with status 500.
\<close>

definition prediction_failure :: "exn \<Rightarrow> http_error" where
  "prediction_failure e = HTTPException 500 (''Prediction error: '' @ str_exn e)"

definition predict ::
  "module_state \<Rightarrow> PredictionInput \<Rightarrow> log_record list \<times> (http_error + PredictionOutput)"
where
  "predict g input_data =
     (case predict_try g input_data of
        Inr out \<Rightarrow> ([Received input_data, Completed (prediction out)], Inr out)
      | Inl e \<Rightarrow> ([Received input_data, Failed e], Inl (prediction_failure e)))"

text \<open>
  The serving process: the module's globals and the log written so far. \<^verbatim>\<open>handle\<close>
  is what the framework does with one request to the route: it builds the
  \<^verbatim>\<open>PredictionInput\<close> from the request body and calls \<^verbatim>\<open>predict\<close> only if that
  succeeded; otherwise it answers with the validation errors itself.
\<close>

record server =
  globals :: module_state
  log :: "log_record list"

definition handle :: "server \<Rightarrow> real \<Rightarrow> real \<Rightarrow> string \<Rightarrow> (http_error + PredictionOutput) \<times> server" where
  "handle s lat lon date_str =
     (case PredictionInput_init lat lon date_str of
        Inl errs \<Rightarrow> (Inl (RequestValidationError errs), s)
      | Inr input_data \<Rightarrow>
          (case predict (globals s) input_data of
             (records, response) \<Rightarrow> (response, s\<lparr>log := log s @ records\<rparr>)))"


subsection \<open>A deterministic set of saved models\<close>

text \<open>
  Saved models for concrete runs: the scaler is the identity, the two base regressors
  answer 5.0 and 7.0 for every row, the residual regressor answers 0.2, and the blend
  weights are 0.6 and 0.4. \<open>stub_state\<close> is the module state that results from them.
\<close>

definition stub_files :: saved_models where
  "stub_files =
     \<lparr>scaler_1 = Inr (\<lambda>x. Inr x),
      xgb_model_1 = Inr (\<lambda>x. Inr (map (\<lambda>row. 5.0) x)),
      stacking_model_1 = Inr (\<lambda>x. Inr (map (\<lambda>row. 7.0) x)),
      residual_model_1 = Inr (\<lambda>x. Inr (map (\<lambda>row. 0.2) x)),
      ensemble_weights_1 = Inr [''xgb_weight'' \<mapsto> 0.6, ''stacking_weight'' \<mapsto> 0.4],
      training_metadata_1 = Inr [''features'' \<mapsto> JList []]\<rparr>"

definition stub_state :: module_state where
  "stub_state =
     \<lparr>scaler = (\<lambda>x. Inr x),
      best_xgb = (\<lambda>x. Inr (map (\<lambda>row. 5.0) x)),
      stacking_model = (\<lambda>x. Inr (map (\<lambda>row. 7.0) x)),
      residual_model = (\<lambda>x. Inr (map (\<lambda>row. 0.2) x)),
      ensemble_weights = [''xgb_weight'' \<mapsto> 0.6, ''stacking_weight'' \<mapsto> 0.4],
      training_metadata = [''features'' \<mapsto> JList []],
      year_min = 1994, year_max = 2024, features = JList [],
      spatial_lag_mean = 12.5, prev_measurement_mean = 11.8,
      prev_year_measurement_mean = 12.1\<rparr>"

definition scenario_input :: PredictionInput where
  "scenario_input = \<lparr>latitude = 28.6139, longitude = 77.2090, date = ''2024-06-15''\<rparr>"

definition scenario_output :: PredictionOutput where
  "scenario_output = \<lparr>prediction = 6.0, confidence = 0.8, units = ''meters below ground level''\<rparr>"

text \<open>
  A process in which both base regressors answer 0 and the residual regressor answers
  \<open>p\<close>, so that the final prediction is \<open>p\<close>.
\<close>

definition constant_state :: "real \<Rightarrow> module_state" where
  "constant_state p =
     stub_state\<lparr>best_xgb := (\<lambda>x. Inr (map (\<lambda>row. 0) x)),
                stacking_model := (\<lambda>x. Inr (map (\<lambda>row. 0) x)),
                residual_model := (\<lambda>x. Inr (map (\<lambda>row. p) x))\<rparr>"

text \<open>The same process with a scaler that rejects the row it is given.\<close>

definition failing_state :: module_state where
  "failing_state =
     stub_state\<lparr>scaler := (\<lambda>x. Inl (ValueError ''X has 65 features, but 64 were expected''))\<rparr>"




text \<open>A request dated in September, a month outside the three seasonal sets.\<close>

definition autumn_input :: PredictionInput where
  "autumn_input = \<lparr>latitude = 28.6139, longitude = 77.2090, date = ''2024-09-15''\<rparr>"

section \<open>Properties\<close>

subsection \<open>Auxiliary facts\<close>

lemma andthen_Inr_iff: "andthen r f = Inr y \<longleftrightarrow> (\<exists>x. r = Inr x \<and> f x = Inr y)"
  by (cases r) (simp_all add: andthen_def)

lemma andthen_simps [simp]: "andthen (Inl e) f = Inl e" "andthen (Inr x) f = f x"
  by (simp_all add: andthen_def)

lemma load_module_literals:
  assumes "load_module files = Inr g"
  shows "year_min g = 1994" and "year_max g = 2024"
    and "spatial_lag_mean g = 12.5" and "prev_measurement_mean g = 11.8"
    and "prev_year_measurement_mean g = 12.1"
  using assms
  by (auto simp: load_module_def split: sum.splits prod.splits)

lemma float_mod_50_range: "0 \<le> float_mod x 50 \<and> float_mod x 50 < 50"
proof -
  have "of_int \<lfloor>x / 50\<rfloor> \<le> x / 50" "x / 50 < of_int \<lfloor>x / 50\<rfloor> + 1"
    by linarith+
  then show ?thesis
    unfolding float_mod_def by (simp add: field_simps)
qed

lemma cluster_idx_range:
  "0 \<le> py_int (float_mod x 50) \<and> py_int (float_mod x 50) < 50"
  using float_mod_50_range [of x]
  by (simp add: py_int_def floor_less_iff)

lemma list_setitem_in_range:
  "0 \<le> i \<Longrightarrow> i < int (length xs) \<Longrightarrow> list_setitem xs i v = Inr (xs[nat i := v])"
  by (simp add: list_setitem_def)

lemma PredictionInput_init_Inr_iff:
  "PredictionInput_init lat lon date_str = Inr input_data \<longleftrightarrow>
     - 90 \<le> lat \<and> lat \<le> 90 \<and> - 180 \<le> lon \<and> lon \<le> 180 \<and>
     (\<exists>date_obj. strptime_Ymd date_str = Inr date_obj) \<and>
     input_data = \<lparr>latitude = lat, longitude = lon, date = date_str\<rparr>"
  by (auto simp: PredictionInput_init_def validate_latitude_def validate_longitude_def
        validate_date_format_def split: sum.splits exn.splits)

lemma prepare_features_loaded:
  assumes "load_module files = Inr g" and "strptime_Ymd date_str = Inr date_obj"
  shows "prepare_features g lat lon date_str =
     Inr [[lat, lon,
           sin (2 * pi * of_int (tm_yday date_obj) / 365),
           cos (2 * pi * of_int (tm_yday date_obj) / 365),
           sin (2 * pi * of_int (dt_month date_obj) / 12),
           cos (2 * pi * of_int (dt_month date_obj) / 12),
           of_int (dt_year date_obj),
           sin (2 * pi * of_int (dt_year date_obj - year_min g) / of_int (year_max g - year_min g)),
           cos (2 * pi * of_int (dt_year date_obj - year_min g) / of_int (year_max g - year_min g)),
           (if dt_month date_obj \<in> {4, 5, 6} then 1 else 0),
           (if dt_month date_obj \<in> {11, 12, 1} then 1 else 0),
           (if dt_month date_obj \<in> {2, 3} then 1 else 0),
           spatial_lag_mean g, prev_measurement_mean g, prev_year_measurement_mean g]
          @ map of_int ((replicate 50 0)[nat (py_int (float_mod (\<bar>lat\<bar> + \<bar>lon\<bar>) 50)) := 1])]"
proof -
  have ne: "year_max g \<noteq> year_min g"
    using load_module_literals(1,2) [OF assms(1)] by simp
  have set: "list_setitem (replicate 50 (0::int)) (py_int (float_mod (\<bar>lat\<bar> + \<bar>lon\<bar>) 50)) 1 =
      Inr ((replicate 50 0)[nat (py_int (float_mod (\<bar>lat\<bar> + \<bar>lon\<bar>) 50)) := 1])"
    using cluster_idx_range [of "\<bar>lat\<bar> + \<bar>lon\<bar>"] by (simp add: list_setitem_in_range)
  show ?thesis
    unfolding prepare_features_def
    by (simp add: assms(2) ne set Let_def)
qed

lemma load_stub_files: "load_module stub_files = Inr stub_state"
  by (simp add: load_module_def load_artifacts_def stub_files_def stub_state_def dict_getitem_def)

lemmas strptime_eval =
  strptime_Ymd_def format_regex_match_def re_m_def re_d_def re_two_def re_one_def re_dash_def
  is_digit_def digit_val_def days_in_month_def is_leap_def

lemma strptime_scenario:
  "strptime_Ymd ''2024-06-15'' = Inr \<lparr>dt_year = 2024, dt_month = 6, dt_day = 15\<rparr>"
  by (simp add: strptime_eval)

lemma init_scenario:
  "PredictionInput_init 28.6139 77.2090 ''2024-06-15'' =
     Inr \<lparr>latitude = 28.6139, longitude = 77.2090, date = ''2024-06-15''\<rparr>"
  by (simp add: PredictionInput_init_Inr_iff strptime_scenario)




lemma strptime_raises_ValueError: "strptime_Ymd s = Inl e \<Longrightarrow> \<exists>m. e = ValueError m"
  by (auto simp: strptime_Ymd_def split: option.splits prod.splits if_splits)



lemma dict_getitem_Inr_iff: "dict_getitem d k = Inr v \<longleftrightarrow> d k = Some v"
  by (simp add: dict_getitem_def split: option.splits)

lemma predict_try_Inr_iff:
  "predict_try g input_data = Inr out \<longleftrightarrow>
     (\<exists>features_array features_scaled xgb_pred stacking_pred xgb_weight stacking_weight residual_pred.
        prepare_features g (latitude input_data) (longitude input_data) (date input_data)
          = Inr features_array \<and>
        scaler g features_array = Inr features_scaled \<and>
        predict0 (best_xgb g) features_scaled = Inr xgb_pred \<and>
        predict0 (stacking_model g) features_scaled = Inr stacking_pred \<and>
        ensemble_weights g ''xgb_weight'' = Some xgb_weight \<and>
        ensemble_weights g ''stacking_weight'' = Some stacking_weight \<and>
        predict0 (residual_model g) features_scaled = Inr residual_pred \<and>
        out = \<lparr>prediction = xgb_weight * xgb_pred + stacking_weight * stacking_pred + residual_pred,
               confidence = max 0.7 (1.0 - \<bar>xgb_weight * xgb_pred + stacking_weight * stacking_pred
                                            + residual_pred - 10\<bar> / 20),
               units = ''meters below ground level''\<rparr>)"
  unfolding predict_try_def andthen_Inr_iff weighted_ensemble_predictions_def
    dict_getitem_Inr_iff Let_def
  by auto

lemma predict_Inr_iff: "snd (predict g input_data) = Inr out \<longleftrightarrow> predict_try g input_data = Inr out"
  by (simp add: predict_def split: sum.splits)

lemma predict_Inl_iff:
  "snd (predict g input_data) = Inl err \<longleftrightarrow>
     (\<exists>e. predict_try g input_data = Inl e \<and> err = prediction_failure e)"
  by (auto simp: predict_def split: sum.splits)

lemma prepare_features_scenario:
  "\<exists>row. prepare_features stub_state (latitude scenario_input) (longitude scenario_input)
           (date scenario_input) = Inr [row]"
  using prepare_features_loaded [OF load_stub_files strptime_scenario]
  by (simp add: scenario_input_def)

lemma predict_try_scenario: "predict_try stub_state scenario_input = Inr scenario_output"
proof -
  obtain row where fa: "prepare_features stub_state (latitude scenario_input)
      (longitude scenario_input) (date scenario_input) = Inr [row]"
    using prepare_features_scenario by blast
  show ?thesis
    unfolding predict_try_def fa
    by (simp add: scenario_output_def stub_state_def predict0_def getitem0_def dict_getitem_def
        weighted_ensemble_predictions_def)
qed

lemma predict_scenario: "snd (predict stub_state scenario_input) = Inr scenario_output"
  by (simp add: predict_Inr_iff predict_try_scenario)


lemma prepare_features_ignores_models:
  "year_min g' = year_min g \<Longrightarrow> year_max g' = year_max g \<Longrightarrow>
   spatial_lag_mean g' = spatial_lag_mean g \<Longrightarrow> prev_measurement_mean g' = prev_measurement_mean g \<Longrightarrow>
   prev_year_measurement_mean g' = prev_year_measurement_mean g \<Longrightarrow>
   prepare_features g' lat lon date_str = prepare_features g lat lon date_str"
  by (cases "strptime_Ymd date_str") (simp_all add: prepare_features_def Let_def)

lemma predict_try_constant:
  "predict_try (constant_state p) scenario_input =
     Inr \<lparr>prediction = p, confidence = max 0.7 (1.0 - \<bar>p - 10\<bar> / 20),
          units = ''meters below ground level''\<rparr>"
proof -
  have "prepare_features (constant_state p) (latitude scenario_input) (longitude scenario_input)
      (date scenario_input) = prepare_features stub_state (latitude scenario_input)
      (longitude scenario_input) (date scenario_input)"
    by (rule prepare_features_ignores_models) (simp_all add: constant_state_def)
  then obtain row where fa: "prepare_features (constant_state p) (latitude scenario_input)
      (longitude scenario_input) (date scenario_input) = Inr [row]"
    using prepare_features_scenario by auto
  show ?thesis
    unfolding predict_try_def fa
    by (simp add: constant_state_def stub_state_def predict0_def getitem0_def dict_getitem_def
        weighted_ensemble_predictions_def)
qed


lemma validate_date_format_Inl:
  "strptime_Ymd date_str = Inl e \<Longrightarrow>
     validate_date_format date_str = Inl (ValueError ''Date must be in YYYY-MM-DD format'')"
  using strptime_raises_ValueError [of date_str e]
  by (auto simp: validate_date_format_def)

lemma strptime_invalid_month_day:
  "strptime_Ymd ''2024-13-40'' = Inl (ValueError ''time data does not match format'')"
  by (simp add: strptime_eval)

lemma handle_rejected:
  "PredictionInput_init lat lon date_str = Inl errs \<Longrightarrow>
     handle s lat lon date_str = (Inl (RequestValidationError errs), s)"
  by (simp add: handle_def)




subsection \<open>Feature synthesis\<close>

text \<open>
  Claim C1. For every valid (latitude, longitude, date) input, in a process whose module
  has loaded, \<open>prepare_features\<close> returns one row of length exactly 65. Its entries are,
  in this order: latitude, longitude, doy_sin, doy_cos, month_sin, month_cos, year,
  year_sin, year_cos, is_summer, is_winter, is_spring, spatial_lag_est,
  prev_measurement_est, prev_year_measurement_est, and then the 50 cluster features.
\<close>

theorem prepare_features_order:
  assumes "load_module files = Inr g"
    and "PredictionInput_init lat lon date_str = Inr input_data"
  shows "\<exists>date_obj row cluster_features.
     strptime_Ymd date_str = Inr date_obj \<and>
     prepare_features g (latitude input_data) (longitude input_data) (date input_data) = Inr [row] \<and>
     length row = 65 \<and> length cluster_features = 50 \<and>
     row = [lat, lon,
            sin (2 * pi * of_int (tm_yday date_obj) / 365),
            cos (2 * pi * of_int (tm_yday date_obj) / 365),
            sin (2 * pi * of_int (dt_month date_obj) / 12),
            cos (2 * pi * of_int (dt_month date_obj) / 12),
            of_int (dt_year date_obj),
            sin (2 * pi * of_int (dt_year date_obj - year_min g) / of_int (year_max g - year_min g)),
            cos (2 * pi * of_int (dt_year date_obj - year_min g) / of_int (year_max g - year_min g)),
            (if dt_month date_obj \<in> {4, 5, 6} then 1 else 0),
            (if dt_month date_obj \<in> {11, 12, 1} then 1 else 0),
            (if dt_month date_obj \<in> {2, 3} then 1 else 0),
            spatial_lag_mean g, prev_measurement_mean g, prev_year_measurement_mean g]
           @ cluster_features"
proof -
  from assms(2) obtain date_obj where d: "strptime_Ymd date_str = Inr date_obj"
    and i: "input_data = \<lparr>latitude = lat, longitude = lon, date = date_str\<rparr>"
    by (auto simp: PredictionInput_init_Inr_iff)
  show ?thesis
    using prepare_features_loaded [OF assms(1) d, of lat lon] d i
    by (intro exI [of _ date_obj]) simp
qed

theorem prepare_features_order_witness:
  "load_module stub_files = Inr stub_state \<and>
   PredictionInput_init 28.6139 77.2090 ''2024-06-15'' =
     Inr \<lparr>latitude = 28.6139, longitude = 77.2090, date = ''2024-06-15''\<rparr> \<and>
   (\<exists>row cluster_features.
      prepare_features stub_state 28.6139 77.2090 ''2024-06-15'' = Inr [row] \<and>
      length row = 65 \<and> length cluster_features = 50 \<and>
      row = [28.6139, 77.2090,
             sin (2 * pi * 167 / 365), cos (2 * pi * 167 / 365),
             sin (2 * pi * 6 / 12), cos (2 * pi * 6 / 12),
             2024, sin (2 * pi * 30 / 30), cos (2 * pi * 30 / 30),
             1, 0, 0, 12.5, 11.8, 12.1] @ cluster_features)"
  using prepare_features_order [OF load_stub_files init_scenario] load_stub_files init_scenario
  by (simp add: strptime_scenario tm_yday_def days_before_month_def is_leap_def stub_state_def)



text \<open>
  Claim C6. For every valid date, is_summer (entry 10 of the row) is 1 iff the month is
  4, 5 or 6, is_winter (entry 11) is 1 iff the month is 11, 12 or 1, is_spring (entry 12)
  is 1 iff the month is 2 or 3, each flag being 0 or 1; for the months 7, 8, 9 and 10 all
  three flags are 0 together.
\<close>

theorem seasonal_flags:
  assumes "load_module files = Inr g"
    and "PredictionInput_init lat lon date_str = Inr input_data"
  shows "\<exists>date_obj row.
     strptime_Ymd date_str = Inr date_obj \<and>
     prepare_features g (latitude input_data) (longitude input_data) (date input_data) = Inr [row] \<and>
     row ! 9 \<in> {0, 1} \<and> row ! 10 \<in> {0, 1} \<and> row ! 11 \<in> {0, 1} \<and>
     (row ! 9 = 1 \<longleftrightarrow> dt_month date_obj \<in> {4, 5, 6}) \<and>
     (row ! 10 = 1 \<longleftrightarrow> dt_month date_obj \<in> {11, 12, 1}) \<and>
     (row ! 11 = 1 \<longleftrightarrow> dt_month date_obj \<in> {2, 3}) \<and>
     (dt_month date_obj \<in> {7, 8, 9, 10} \<longrightarrow> row ! 9 = 0 \<and> row ! 10 = 0 \<and> row ! 11 = 0)"
proof -
  from assms(2) obtain date_obj where d: "strptime_Ymd date_str = Inr date_obj"
    and i: "input_data = \<lparr>latitude = lat, longitude = lon, date = date_str\<rparr>"
    by (auto simp: PredictionInput_init_Inr_iff)
  show ?thesis
    using prepare_features_loaded [OF assms(1) d, of lat lon] d i
    by (intro exI [of _ date_obj]) simp
qed

theorem seasonal_flags_witness:
  "load_module stub_files = Inr stub_state \<and>
   PredictionInput_init 28.6139 77.2090 ''2024-09-15'' = Inr autumn_input \<and>
   (\<exists>row. prepare_features stub_state 28.6139 77.2090 ''2024-09-15'' = Inr [row] \<and>
      row ! 9 = 0 \<and> row ! 10 = 0 \<and> row ! 11 = 0)"
proof -
  have d: "strptime_Ymd ''2024-09-15'' = Inr \<lparr>dt_year = 2024, dt_month = 9, dt_day = 15\<rparr>"
    by (simp add: strptime_eval)
  have i: "PredictionInput_init 28.6139 77.2090 ''2024-09-15'' = Inr autumn_input"
    by (simp add: PredictionInput_init_Inr_iff d autumn_input_def)
  show ?thesis
    using seasonal_flags [OF load_stub_files i] load_stub_files i
    by (auto simp: d autumn_input_def)
qed

text \<open>
  Claim C10. For every latitude in [-90, 90] and longitude in [-180, 180], the cluster
  index int((|latitude| + |longitude|) % 50) lies in [0, 49]; the write into the list of 50
  cluster features is therefore within bounds, and feature synthesis never raises an
  \<^verbatim>\<open>IndexError\<close> on such inputs.
\<close>

theorem cluster_idx_in_bounds:
  assumes "- 90 \<le> lat" and "lat \<le> 90" and "- 180 \<le> lon" and "lon \<le> 180"
  shows "0 \<le> py_int (float_mod (\<bar>lat\<bar> + \<bar>lon\<bar>) 50) \<and>
         py_int (float_mod (\<bar>lat\<bar> + \<bar>lon\<bar>) 50) \<le> 49 \<and>
         list_setitem (replicate 50 (0::int)) (py_int (float_mod (\<bar>lat\<bar> + \<bar>lon\<bar>) 50)) 1 =
           Inr ((replicate 50 0)[nat (py_int (float_mod (\<bar>lat\<bar> + \<bar>lon\<bar>) 50)) := 1]) \<and>
         (\<forall>g date_str m. prepare_features g lat lon date_str \<noteq> Inl (IndexError m))"
proof -
  have r: "0 \<le> py_int (float_mod (\<bar>lat\<bar> + \<bar>lon\<bar>) 50)" "py_int (float_mod (\<bar>lat\<bar> + \<bar>lon\<bar>) 50) < 50"
    using cluster_idx_range [of "\<bar>lat\<bar> + \<bar>lon\<bar>"] by simp_all
  have set: "list_setitem (replicate 50 (0::int)) (py_int (float_mod (\<bar>lat\<bar> + \<bar>lon\<bar>) 50)) 1 =
      Inr ((replicate 50 0)[nat (py_int (float_mod (\<bar>lat\<bar> + \<bar>lon\<bar>) 50)) := 1])"
    using r by (simp add: list_setitem_in_range)
  have "prepare_features g lat lon date_str \<noteq> Inl (IndexError m)" for g date_str m
    using strptime_raises_ValueError [of date_str "IndexError m"]
    by (auto simp: prepare_features_def set Let_def split: sum.splits)
  with r set show ?thesis by simp
qed

theorem cluster_idx_in_bounds_witness:
  "- 90 \<le> (- 90 :: real) \<and> (- 90 :: real) \<le> 90 \<and> - 180 \<le> (180 :: real) \<and> (180 :: real) \<le> 180 \<and>
   py_int (float_mod (\<bar>- 90\<bar> + \<bar>180\<bar>) 50) = 20 \<and>
   list_setitem (replicate 50 (0::int)) 20 1 = Inr ((replicate 50 0)[20 := 1])"
proof -
  have v: "py_int (float_mod (\<bar>- 90\<bar> + \<bar>180\<bar>) 50) = 20"
    by (simp add: py_int_def float_mod_def)
  show ?thesis
    using cluster_idx_in_bounds [of "- 90" 180] v by simp
qed

subsection \<open>Ensemble prediction and confidence\<close>



text \<open>
  Claim C4. The confidence of every output equals max(0.7, 1.0 - |p - 10| / 20), where
  \<open>p\<close> is the final prediction; hence it lies in [0.7, 1.0] and is 1.0 exactly when
  \<open>p = 10\<close>. Every real \<open>p\<close> occurs as a final prediction.
\<close>

theorem confidence_formula:
  "(\<forall>g input_data out. snd (predict g input_data) = Inr out \<longrightarrow>
      confidence out = max 0.7 (1.0 - \<bar>prediction out - 10\<bar> / 20) \<and>
      0.7 \<le> confidence out \<and> confidence out \<le> 1.0 \<and>
      (confidence out = 1.0 \<longleftrightarrow> prediction out = 10)) \<and>
   (\<forall>p. snd (predict (constant_state p) scenario_input) =
      Inr \<lparr>prediction = p, confidence = max 0.7 (1.0 - \<bar>p - 10\<bar> / 20),
           units = ''meters below ground level''\<rparr>)"
proof (intro conjI allI impI)
  fix g input_data out
  assume "snd (predict g input_data) = Inr out"
  then have "predict_try g input_data = Inr out"
    by (simp add: predict_Inr_iff)
  then show c: "confidence out = max 0.7 (1.0 - \<bar>prediction out - 10\<bar> / 20)"
    unfolding predict_try_Inr_iff by auto
  show "0.7 \<le> confidence out" and "confidence out \<le> 1.0"
    and "confidence out = 1.0 \<longleftrightarrow> prediction out = 10"
    unfolding c by (auto simp: max_def)
next
  fix p
  show "snd (predict (constant_state p) scenario_input) =
      Inr \<lparr>prediction = p, confidence = max 0.7 (1.0 - \<bar>p - 10\<bar> / 20),
           units = ''meters below ground level''\<rparr>"
    by (simp add: predict_Inr_iff predict_try_constant)
qed

theorem confidence_formula_witness:
  "snd (predict stub_state scenario_input) = Inr scenario_output \<and>
   prediction scenario_output = 6 \<and> confidence scenario_output = 0.8 \<and>
   confidence scenario_output = max 0.7 (1.0 - \<bar>6 - 10\<bar> / 20) \<and>
   snd (predict (constant_state 10) scenario_input) =
      Inr \<lparr>prediction = 10, confidence = 1, units = ''meters below ground level''\<rparr>"
proof -
  have "confidence scenario_output = max 0.7 (1.0 - \<bar>prediction scenario_output - 10\<bar> / 20)"
    using confidence_formula predict_scenario by blast
  moreover have "snd (predict (constant_state 10) scenario_input) =
      Inr \<lparr>prediction = 10, confidence = max 0.7 (1.0 - \<bar>10 - 10\<bar> / 20),
           units = ''meters below ground level''\<rparr>"
    using confidence_formula by blast
  ultimately show ?thesis
    using predict_scenario by (simp add: scenario_output_def)
qed

subsection \<open>Process start\<close>




subsection \<open>Input validation\<close>

text \<open>
  Claim C7. Validation accepts the latitudes -90 and 90 and the longitudes -180 and 180
  (the other two fields being valid), and rejects every latitude outside [-90, 90], every
  longitude outside [-180, 180] and every date string that \<^verbatim>\<open>strptime\<close> does not
  parse, such as 2024-13-40, each with the \<^verbatim>\<open>ValueError\<close> of its validator. A
  rejected request is answered with the validation errors and leaves the process as it
  was: \<open>predict\<close> is not entered, so nothing is logged and no model is run.
\<close>

theorem input_validation:
  "(\<forall>lon date_str date_obj.
      - 180 \<le> lon \<and> lon \<le> 180 \<and> strptime_Ymd date_str = Inr date_obj \<longrightarrow>
      PredictionInput_init 90 lon date_str
        = Inr \<lparr>latitude = 90, longitude = lon, date = date_str\<rparr> \<and>
      PredictionInput_init (- 90) lon date_str
        = Inr \<lparr>latitude = - 90, longitude = lon, date = date_str\<rparr>) \<and>
   (\<forall>lat date_str date_obj.
      - 90 \<le> lat \<and> lat \<le> 90 \<and> strptime_Ymd date_str = Inr date_obj \<longrightarrow>
      PredictionInput_init lat 180 date_str
        = Inr \<lparr>latitude = lat, longitude = 180, date = date_str\<rparr> \<and>
      PredictionInput_init lat (- 180) date_str
        = Inr \<lparr>latitude = lat, longitude = - 180, date = date_str\<rparr>) \<and>
   (\<forall>lat lon date_str.
      lat < - 90 \<or> 90 < lat \<longrightarrow>
      (\<exists>errs. PredictionInput_init lat lon date_str = Inl errs \<and>
         ValueError ''Latitude must be between -90 and 90'' \<in> set errs)) \<and>
   (\<forall>lat lon date_str.
      lon < - 180 \<or> 180 < lon \<longrightarrow>
      (\<exists>errs. PredictionInput_init lat lon date_str = Inl errs \<and>
         ValueError ''Longitude must be between -180 and 180'' \<in> set errs)) \<and>
   (\<forall>lat lon date_str e.
      strptime_Ymd date_str = Inl e \<longrightarrow>
      (\<exists>errs. PredictionInput_init lat lon date_str = Inl errs \<and>
         ValueError ''Date must be in YYYY-MM-DD format'' \<in> set errs)) \<and>
   (\<exists>e. strptime_Ymd ''2024-13-40'' = Inl e) \<and>
   (\<forall>s lat lon date_str errs.
      PredictionInput_init lat lon date_str = Inl errs \<longrightarrow>
      handle s lat lon date_str = (Inl (RequestValidationError errs), s))"
proof (intro conjI allI impI)
  fix lon :: real and date_str date_obj
  assume "- 180 \<le> lon \<and> lon \<le> 180 \<and> strptime_Ymd date_str = Inr date_obj"
  then show "PredictionInput_init 90 lon date_str
        = Inr \<lparr>latitude = 90, longitude = lon, date = date_str\<rparr>"
    and "PredictionInput_init (- 90) lon date_str
        = Inr \<lparr>latitude = - 90, longitude = lon, date = date_str\<rparr>"
    by (simp_all add: PredictionInput_init_Inr_iff)
next
  fix lat :: real and date_str date_obj
  assume "- 90 \<le> lat \<and> lat \<le> 90 \<and> strptime_Ymd date_str = Inr date_obj"
  then show "PredictionInput_init lat 180 date_str
        = Inr \<lparr>latitude = lat, longitude = 180, date = date_str\<rparr>"
    and "PredictionInput_init lat (- 180) date_str
        = Inr \<lparr>latitude = lat, longitude = - 180, date = date_str\<rparr>"
    by (simp_all add: PredictionInput_init_Inr_iff)
next
  fix lat lon :: real and date_str
  assume "lat < - 90 \<or> 90 < lat"
  then have "validate_latitude lat = Inl (ValueError ''Latitude must be between -90 and 90'')"
    by (auto simp: validate_latitude_def)
  then show "\<exists>errs. PredictionInput_init lat lon date_str = Inl errs \<and>
         ValueError ''Latitude must be between -90 and 90'' \<in> set errs"
    by (simp add: PredictionInput_init_def errors_of_def)
next
  fix lat lon :: real and date_str
  assume "lon < - 180 \<or> 180 < lon"
  then have "validate_longitude lon = Inl (ValueError ''Longitude must be between -180 and 180'')"
    by (auto simp: validate_longitude_def)
  then show "\<exists>errs. PredictionInput_init lat lon date_str = Inl errs \<and>
         ValueError ''Longitude must be between -180 and 180'' \<in> set errs"
    by (simp add: PredictionInput_init_def errors_of_def split: sum.splits)
next
  fix lat lon :: real and date_str e
  assume "strptime_Ymd date_str = Inl e"
  then have "validate_date_format date_str = Inl (ValueError ''Date must be in YYYY-MM-DD format'')"
    by (rule validate_date_format_Inl)
  then show "\<exists>errs. PredictionInput_init lat lon date_str = Inl errs \<and>
         ValueError ''Date must be in YYYY-MM-DD format'' \<in> set errs"
    by (simp add: PredictionInput_init_def errors_of_def split: sum.splits)
next
  show "\<exists>e. strptime_Ymd ''2024-13-40'' = Inl e"
    using strptime_invalid_month_day by blast
next
  fix s lat lon date_str errs
  assume "PredictionInput_init lat lon date_str = Inl errs"
  then show "handle s lat lon date_str = (Inl (RequestValidationError errs), s)"
    by (rule handle_rejected)
qed

theorem input_validation_witness:
  "PredictionInput_init 90 (- 180) ''2024-06-15''
     = Inr \<lparr>latitude = 90, longitude = - 180, date = ''2024-06-15''\<rparr> \<and>
   (\<exists>errs. PredictionInput_init 90.0001 77.2090 ''2024-06-15'' = Inl errs \<and>
      handle \<lparr>globals = stub_state, log = []\<rparr> 90.0001 77.2090 ''2024-06-15''
        = (Inl (RequestValidationError errs), \<lparr>globals = stub_state, log = []\<rparr>)) \<and>
   (\<exists>errs. PredictionInput_init 28.6139 77.2090 ''2024-13-40'' = Inl errs \<and>
      ValueError ''Date must be in YYYY-MM-DD format'' \<in> set errs \<and>
      handle \<lparr>globals = stub_state, log = []\<rparr> 28.6139 77.2090 ''2024-13-40''
        = (Inl (RequestValidationError errs), \<lparr>globals = stub_state, log = []\<rparr>))"
proof -
  note accept = input_validation [THEN conjunct1, rule_format]
  note reject_lat = input_validation [THEN conjunct2, THEN conjunct2, THEN conjunct1, rule_format]
  note reject_date = input_validation [THEN conjunct2, THEN conjunct2, THEN conjunct2,
      THEN conjunct2, THEN conjunct1, rule_format]
  note no_call = input_validation [THEN conjunct2, THEN conjunct2, THEN conjunct2,
      THEN conjunct2, THEN conjunct2, THEN conjunct2, rule_format]
  have 1: "PredictionInput_init 90 (- 180) ''2024-06-15''
     = Inr \<lparr>latitude = 90, longitude = - 180, date = ''2024-06-15''\<rparr>"
    using accept [of "- 180" "''2024-06-15''" "\<lparr>dt_year = 2024, dt_month = 6, dt_day = 15\<rparr>"]
    by (simp add: strptime_scenario)
  obtain errs1 where 2: "PredictionInput_init 90.0001 77.2090 ''2024-06-15'' = Inl errs1"
    using reject_lat [of "90.0001" "77.2090" "''2024-06-15''"] by auto
  obtain errs2 where 3: "PredictionInput_init 28.6139 77.2090 ''2024-13-40'' = Inl errs2"
    "ValueError ''Date must be in YYYY-MM-DD format'' \<in> set errs2"
    using reject_date [OF strptime_invalid_month_day, of "28.6139" "77.2090"] by auto
  show ?thesis
    using 1 2 3 no_call [OF 2] no_call [OF 3(1)] by simp
qed

subsection \<open>The service boundary\<close>

text \<open>
  Claim C8. For every validated input, an exception raised by any stage of \<open>predict\<close>
  (feature synthesis, scaling, either base model, the lookup of either blend weight, the
  residual model) is caught and reported as the \<^verbatim>\<open>HTTPException\<close> with status 500
  and detail "Prediction error: ..."; every failure of \<open>predict\<close> has this form, and an
  output is returned only if every stage returned, with all of its fields computed.
\<close>

theorem predict_catches_every_exception:
  assumes "PredictionInput_init lat lon date_str = Inr input_data"
  shows
   "(\<forall>e. prepare_features g lat lon date_str = Inl e \<longrightarrow>
        snd (predict g input_data) = Inl (prediction_failure e)) \<and>
    (\<forall>fa e. prepare_features g lat lon date_str = Inr fa \<and> scaler g fa = Inl e \<longrightarrow>
        snd (predict g input_data) = Inl (prediction_failure e)) \<and>
    (\<forall>fa fs e. prepare_features g lat lon date_str = Inr fa \<and> scaler g fa = Inr fs \<and>
        predict0 (best_xgb g) fs = Inl e \<longrightarrow>
        snd (predict g input_data) = Inl (prediction_failure e)) \<and>
    (\<forall>fa fs a e. prepare_features g lat lon date_str = Inr fa \<and> scaler g fa = Inr fs \<and>
        predict0 (best_xgb g) fs = Inr a \<and> predict0 (stacking_model g) fs = Inl e \<longrightarrow>
        snd (predict g input_data) = Inl (prediction_failure e)) \<and>
    (\<forall>fa fs a b. prepare_features g lat lon date_str = Inr fa \<and> scaler g fa = Inr fs \<and>
        predict0 (best_xgb g) fs = Inr a \<and> predict0 (stacking_model g) fs = Inr b \<and>
        ensemble_weights g ''xgb_weight'' = None \<longrightarrow>
        snd (predict g input_data) = Inl (prediction_failure (KeyError ''xgb_weight''))) \<and>
    (\<forall>fa fs a b wa. prepare_features g lat lon date_str = Inr fa \<and> scaler g fa = Inr fs \<and>
        predict0 (best_xgb g) fs = Inr a \<and> predict0 (stacking_model g) fs = Inr b \<and>
        ensemble_weights g ''xgb_weight'' = Some wa \<and>
        ensemble_weights g ''stacking_weight'' = None \<longrightarrow>
        snd (predict g input_data) = Inl (prediction_failure (KeyError ''stacking_weight''))) \<and>
    (\<forall>fa fs a b wa wb e. prepare_features g lat lon date_str = Inr fa \<and> scaler g fa = Inr fs \<and>
        predict0 (best_xgb g) fs = Inr a \<and> predict0 (stacking_model g) fs = Inr b \<and>
        ensemble_weights g ''xgb_weight'' = Some wa \<and>
        ensemble_weights g ''stacking_weight'' = Some wb \<and>
        predict0 (residual_model g) fs = Inl e \<longrightarrow>
        snd (predict g input_data) = Inl (prediction_failure e)) \<and>
    (\<forall>err. snd (predict g input_data) = Inl err \<longrightarrow>
        (\<exists>e. err = HTTPException 500 (''Prediction error: '' @ str_exn e))) \<and>
    (\<forall>out. snd (predict g input_data) = Inr out \<longrightarrow>
        (\<exists>fa fs a b wa wb r.
           prepare_features g lat lon date_str = Inr fa \<and> scaler g fa = Inr fs \<and>
           predict0 (best_xgb g) fs = Inr a \<and> predict0 (stacking_model g) fs = Inr b \<and>
           ensemble_weights g ''xgb_weight'' = Some wa \<and>
           ensemble_weights g ''stacking_weight'' = Some wb \<and>
           predict0 (residual_model g) fs = Inr r \<and>
           out = \<lparr>prediction = wa * a + wb * b + r,
                  confidence = max 0.7 (1.0 - \<bar>wa * a + wb * b + r - 10\<bar> / 20),
                  units = ''meters below ground level''\<rparr>))"
proof -
  from assms have i: "latitude input_data = lat" "longitude input_data = lon"
      "date input_data = date_str"
    by (auto simp: PredictionInput_init_Inr_iff)
  note unfold = predict_def predict_try_def i dict_getitem_def weighted_ensemble_predictions_def
  have 1: "snd (predict g input_data) = Inl (prediction_failure e)"
    if "prepare_features g lat lon date_str = Inl e" for e
    using that by (simp add: unfold)
  have 2: "snd (predict g input_data) = Inl (prediction_failure e)"
    if "prepare_features g lat lon date_str = Inr fa \<and> scaler g fa = Inl e" for fa e
    using that by (simp add: unfold)
  have 3: "snd (predict g input_data) = Inl (prediction_failure e)"
    if "prepare_features g lat lon date_str = Inr fa \<and> scaler g fa = Inr fs \<and>
        predict0 (best_xgb g) fs = Inl e" for fa fs e
    using that by (simp add: unfold)
  have 4: "snd (predict g input_data) = Inl (prediction_failure e)"
    if "prepare_features g lat lon date_str = Inr fa \<and> scaler g fa = Inr fs \<and>
        predict0 (best_xgb g) fs = Inr a \<and> predict0 (stacking_model g) fs = Inl e" for fa fs a e
    using that by (simp add: unfold)
  have 5: "snd (predict g input_data) = Inl (prediction_failure (KeyError ''xgb_weight''))"
    if "prepare_features g lat lon date_str = Inr fa \<and> scaler g fa = Inr fs \<and>
        predict0 (best_xgb g) fs = Inr a \<and> predict0 (stacking_model g) fs = Inr b \<and>
        ensemble_weights g ''xgb_weight'' = None" for fa fs a b
    using that by (simp add: unfold)
  have 6: "snd (predict g input_data) = Inl (prediction_failure (KeyError ''stacking_weight''))"
    if "prepare_features g lat lon date_str = Inr fa \<and> scaler g fa = Inr fs \<and>
        predict0 (best_xgb g) fs = Inr a \<and> predict0 (stacking_model g) fs = Inr b \<and>
        ensemble_weights g ''xgb_weight'' = Some wa \<and>
        ensemble_weights g ''stacking_weight'' = None" for fa fs a b wa
    using that by (simp add: unfold)
  have 7: "snd (predict g input_data) = Inl (prediction_failure e)"
    if "prepare_features g lat lon date_str = Inr fa \<and> scaler g fa = Inr fs \<and>
        predict0 (best_xgb g) fs = Inr a \<and> predict0 (stacking_model g) fs = Inr b \<and>
        ensemble_weights g ''xgb_weight'' = Some wa \<and>
        ensemble_weights g ''stacking_weight'' = Some wb \<and>
        predict0 (residual_model g) fs = Inl e" for fa fs a b wa wb e
    using that by (simp add: unfold)
  have 8: "\<exists>e. err = HTTPException 500 (''Prediction error: '' @ str_exn e)"
    if "snd (predict g input_data) = Inl err" for err
    using that by (auto simp: predict_Inl_iff prediction_failure_def)
  have 9: "\<exists>fa fs a b wa wb r.
           prepare_features g lat lon date_str = Inr fa \<and> scaler g fa = Inr fs \<and>
           predict0 (best_xgb g) fs = Inr a \<and> predict0 (stacking_model g) fs = Inr b \<and>
           ensemble_weights g ''xgb_weight'' = Some wa \<and>
           ensemble_weights g ''stacking_weight'' = Some wb \<and>
           predict0 (residual_model g) fs = Inr r \<and>
           out = \<lparr>prediction = wa * a + wb * b + r,
                  confidence = max 0.7 (1.0 - \<bar>wa * a + wb * b + r - 10\<bar> / 20),
                  units = ''meters below ground level''\<rparr>"
    if "snd (predict g input_data) = Inr out" for out
    using that unfolding predict_Inr_iff predict_try_Inr_iff i by blast
  from 1 2 3 4 5 6 7 8 9 show ?thesis
    by (intro conjI allI impI)
qed

theorem predict_catches_every_exception_witness:
  "PredictionInput_init 28.6139 77.2090 ''2024-06-15'' = Inr scenario_input \<and>
   (\<exists>fa. prepare_features failing_state 28.6139 77.2090 ''2024-06-15'' = Inr fa \<and>
      scaler failing_state fa = Inl (ValueError ''X has 65 features, but 64 were expected'')) \<and>
   snd (predict failing_state scenario_input) =
     Inl (HTTPException 500 ''Prediction error: X has 65 features, but 64 were expected'')"
proof -
  have i: "PredictionInput_init 28.6139 77.2090 ''2024-06-15'' = Inr scenario_input"
    using init_scenario by (simp add: scenario_input_def)
  have "prepare_features failing_state 28.6139 77.2090 ''2024-06-15''
      = prepare_features stub_state 28.6139 77.2090 ''2024-06-15''"
    by (rule prepare_features_ignores_models) (simp_all add: failing_state_def)
  then obtain row where fa: "prepare_features failing_state 28.6139 77.2090 ''2024-06-15'' = Inr [row]"
    using prepare_features_scenario by (auto simp: scenario_input_def)
  have sc: "scaler failing_state [row] = Inl (ValueError ''X has 65 features, but 64 were expected'')"
    by (simp add: failing_state_def)
  note stage = predict_catches_every_exception [OF i, of failing_state, THEN conjunct2,
      THEN conjunct1, rule_format]
  have "snd (predict failing_state scenario_input) =
      Inl (prediction_failure (ValueError ''X has 65 features, but 64 were expected''))"
    using fa sc by (intro stage) simp
  then show ?thesis
    using i fa sc by (simp add: prediction_failure_def)
qed



end
